theory Spec2Isabelle
  imports
    Main
    "HOL-Library.AList"
    "HOL-Library.Char_ord"
    "HOL-Library.List_Lexorder"
    "HOL-Library.Product_Lexorder"
begin

section \<open>Values, errors and dictionaries\<close>

text \<open>
  The scripts read and write JSON files and pass Python dictionaries around.  A JSON
  value is modelled by the datatype \<open>json\<close> (numbers are the integers; JSON floats are
  outside the model), a dictionary by an association list in insertion order, and a
  Python string by the list of its bytes in UTF-8, whose lexicographic order is the
  order of Python's code points.  An exception is a value of \<open>error\<close>, returned on the
  left of a sum.
\<close>

datatype error =
    ValueError | TypeError | OverflowError | RuntimeError | FileNotFoundError
  | AttributeError | KeyError | IndexError

datatype json =
    JNull | JBool bool | JInt int | JStr string | JArr "json list"
  | JObj "(string \<times> json) list"

type_synonym dict = "(string \<times> json) list"

text \<open>\<open>d.get(k, default)\<close>; \<open>d.get(k)\<close> is \<open>dict_get d k JNull\<close>.\<close>

definition dict_get :: "dict \<Rightarrow> string \<Rightarrow> json \<Rightarrow> json" where
  "dict_get d k dflt = (case map_of d k of None \<Rightarrow> dflt | Some v \<Rightarrow> v)"

text \<open>\<open>d[k] = v\<close>: an existing key keeps its place, a new key goes to the end.\<close>

definition dict_set :: "string \<Rightarrow> json \<Rightarrow> dict \<Rightarrow> dict" where
  "dict_set k v d = AList.update k v d"

text \<open>Python's truth value of a JSON value (\<open>if x\<close>, \<open>not x\<close>).\<close>

fun truthy :: "json \<Rightarrow> bool" where
  "truthy JNull = False"
| "truthy (JBool b) = b"
| "truthy (JInt n) = (n \<noteq> 0)"
| "truthy (JStr s) = (s \<noteq> [])"
| "truthy (JArr xs) = (xs \<noteq> [])"
| "truthy (JObj kvs) = (kvs \<noteq> [])"

subsection \<open>Characters and strings\<close>

definition is_digit :: "char \<Rightarrow> bool" where
  "is_digit c = (CHR ''0'' \<le> c \<and> c \<le> CHR ''9'')"

definition digit_val :: "char \<Rightarrow> nat" where
  "digit_val c = of_char c - 48"

definition digit_char :: "nat \<Rightarrow> char" where
  "digit_char n = ''0123456789'' ! (n mod 10)"

definition is_upper :: "char \<Rightarrow> bool" where
  "is_upper c = (CHR ''A'' \<le> c \<and> c \<le> CHR ''Z'')"

definition is_lower :: "char \<Rightarrow> bool" where
  "is_lower c = (CHR ''a'' \<le> c \<and> c \<le> CHR ''z'')"

text \<open>
  \<open>c.isalnum()\<close> and \<open>c.lower()\<close> on ASCII.  \<open>lower\<close> is compared with \<open>rest\<close>
  only: no character outside ASCII has one of the letters of \<open>rest\<close> in its lower
  case, so \<open>s.lower() == "rest"\<close> holds of ASCII strings alone, where \<open>lower\<close> is
  exact.  \<open>slug\<close> is applied to the titles of the default rotation, which are ASCII.
\<close>

definition is_alnum :: "char \<Rightarrow> bool" where
  "is_alnum c = (is_digit c \<or> is_upper c \<or> is_lower c)"

definition lower_char :: "char \<Rightarrow> char" where
  "lower_char c = (if is_upper c then char_of (of_char c + (32::nat)) else c)"

definition lower :: "string \<Rightarrow> string" where
  "lower s = map lower_char s"

text \<open>
  \<open>str.strip()\<close> removes the white space of Unicode at both ends: the code points
  U+0009 to U+000D, U+001C to U+0020, U+0085, U+00A0, U+1680, U+2000 to U+200A,
  U+2028, U+2029, U+202F, U+205F and U+3000.  In UTF-8 the first ten are one byte,
  the next two are two bytes and the others three.  A byte of a character of two or
  more bytes is 0x80 or more, so a match at either end of a string is a whole
  character.
\<close>

definition is_space :: "char \<Rightarrow> bool" where
  "is_space c = (c \<in> set [CHR 0x09, CHR 0x0A, CHR 0x0B, CHR 0x0C, CHR 0x0D,
                           CHR 0x1C, CHR 0x1D, CHR 0x1E, CHR 0x1F, CHR 0x20])"

definition is_space2 :: "char \<Rightarrow> char \<Rightarrow> bool" where
  "is_space2 a b = (a = CHR 0xC2 \<and> (b = CHR 0x85 \<or> b = CHR 0xA0))"

definition is_space3 :: "char \<Rightarrow> char \<Rightarrow> char \<Rightarrow> bool" where
  "is_space3 a b c =
     ((a = CHR 0xE1 \<and> b = CHR 0x9A \<and> c = CHR 0x80)
      \<or> (a = CHR 0xE2 \<and> b = CHR 0x80
          \<and> ((CHR 0x80 \<le> c \<and> c \<le> CHR 0x8A) \<or> c = CHR 0xA8 \<or> c = CHR 0xA9
              \<or> c = CHR 0xAF))
      \<or> (a = CHR 0xE2 \<and> b = CHR 0x81 \<and> c = CHR 0x9F)
      \<or> (a = CHR 0xE3 \<and> b = CHR 0x80 \<and> c = CHR 0x80))"

fun lstrip :: "string \<Rightarrow> string" where
  "lstrip (a # b # c # cs) =
     (if is_space a then lstrip (b # c # cs)
      else if is_space2 a b then lstrip (c # cs)
      else if is_space3 a b c then lstrip cs
      else a # b # c # cs)"
| "lstrip [a, b] =
     (if is_space a then lstrip [b] else if is_space2 a b then [] else [a, b])"
| "lstrip [a] = (if is_space a then [] else [a])"
| "lstrip [] = []"

text \<open>The same from the other end, on the reversed string.\<close>

fun lstrip_reversed :: "string \<Rightarrow> string" where
  "lstrip_reversed (c # b # a # cs) =
     (if is_space c then lstrip_reversed (b # a # cs)
      else if is_space2 b c then lstrip_reversed (a # cs)
      else if is_space3 a b c then lstrip_reversed cs
      else c # b # a # cs)"
| "lstrip_reversed [c, b] =
     (if is_space c then lstrip_reversed [b] else if is_space2 b c then [] else [c, b])"
| "lstrip_reversed [c] = (if is_space c then [] else [c])"
| "lstrip_reversed [] = []"

definition strip :: "string \<Rightarrow> string" where
  "strip s = rev (lstrip_reversed (rev (lstrip s)))"

text \<open>\<open>sep.join(xs)\<close>.\<close>

fun join :: "string \<Rightarrow> string list \<Rightarrow> string" where
  "join sep [] = []"
| "join sep [x] = x"
| "join sep (x # y # ys) = x @ sep @ join sep (y # ys)"

text \<open>The value of a string of decimal digits, most significant first.\<close>

definition digits_val :: "string \<Rightarrow> nat" where
  "digits_val s = foldl (\<lambda>acc c. 10 * acc + digit_val c) 0 s"

text \<open>
  \<open>int(x)\<close> on a JSON value.  On a string it is the interpreter's parser of integer
  literals (white space, a sign, the decimal digits of Unicode, underscores, a limit
  on the number of digits that depends on the version): the argument \<open>int_str\<close>.
\<close>

fun py_int :: "(string \<Rightarrow> error + int) \<Rightarrow> json \<Rightarrow> error + int" where
  "py_int int_str (JInt n) = Inr n"
| "py_int int_str (JBool b) = Inr (if b then 1 else 0)"
| "py_int int_str (JStr s) = int_str s"
| "py_int int_str JNull = Inl TypeError"
| "py_int int_str (JArr xs) = Inl TypeError"
| "py_int int_str (JObj kvs) = Inl TypeError"

section \<open>Calendar dates\<close>

text \<open>
  \<open>datetime.date\<close>: a proleptic Gregorian date with year 1 to 9999.  \<open>fromisoformat\<close> is
  modelled on the format \<open>YYYY-MM-DD\<close>, the one \<open>isoformat\<close> writes and
  \<open>today_local_iso\<close> hands to the scheduler.
\<close>

datatype date = Date (year: nat) (month: nat) (day: nat)

definition is_leap :: "nat \<Rightarrow> bool" where
  "is_leap y = (y mod 4 = 0 \<and> (y mod 100 \<noteq> 0 \<or> y mod 400 = 0))"

definition days_in_month :: "nat \<Rightarrow> nat \<Rightarrow> nat" where
  "days_in_month y m =
     (if m = 2 then (if is_leap y then 29 else 28)
      else if m = 4 \<or> m = 6 \<or> m = 9 \<or> m = 11 then 30 else 31)"

definition valid_date :: "date \<Rightarrow> bool" where
  "valid_date d =
     (1 \<le> year d \<and> year d \<le> 9999 \<and> 1 \<le> month d \<and> month d \<le> 12
      \<and> 1 \<le> day d \<and> day d \<le> days_in_month (year d) (month d))"

definition pad2 :: "nat \<Rightarrow> string" where
  "pad2 n = [digit_char (n div 10), digit_char n]"

definition pad4 :: "nat \<Rightarrow> string" where
  "pad4 n = [digit_char (n div 1000), digit_char (n div 100), digit_char (n div 10),
             digit_char n]"

definition isoformat :: "date \<Rightarrow> string" where
  "isoformat d = pad4 (year d) @ ''-'' @ pad2 (month d) @ ''-'' @ pad2 (day d)"

definition fromisoformat :: "string \<Rightarrow> error + date" where
  "fromisoformat s =
     (case s of
        [y1, y2, y3, y4, s1, m1, m2, s2, d1, d2] \<Rightarrow>
          (if list_all is_digit [y1, y2, y3, y4, m1, m2, d1, d2]
              \<and> s1 = CHR ''-'' \<and> s2 = CHR ''-''
           then (let d = Date (digits_val [y1, y2, y3, y4]) (digits_val [m1, m2])
                              (digits_val [d1, d2])
                 in if valid_date d then Inr d else Inl ValueError)
           else Inl ValueError)
      | _ \<Rightarrow> Inl ValueError)"

text \<open>\<open>d - timedelta(days=1)\<close>; the day before 0001-01-01 is out of range.\<close>

definition minus_one_day :: "date \<Rightarrow> error + date" where
  "minus_one_day d =
     (if 1 < day d then Inr (Date (year d) (month d) (day d - 1))
      else if 1 < month d
        then Inr (Date (year d) (month d - 1) (days_in_month (year d) (month d - 1)))
      else if 1 < year d then Inr (Date (year d - 1) 12 31)
      else Inl OverflowError)"

text \<open>\<open>date.toordinal()\<close> (0001-01-01 is day 1) and \<open>strftime("%A")\<close>.\<close>

definition days_before_year :: "nat \<Rightarrow> nat" where
  "days_before_year y =
     (let p = y - 1 in p * 365 + p div 4 - p div 100 + p div 400)"

definition days_before_month :: "nat \<Rightarrow> nat \<Rightarrow> nat" where
  "days_before_month y m =
     [0, 0, 31, 59, 90, 120, 151, 181, 212, 243, 273, 304, 334] ! m
     + (if 2 < m \<and> is_leap y then 1 else 0)"

definition toordinal :: "date \<Rightarrow> nat" where
  "toordinal d = days_before_year (year d) + days_before_month (year d) (month d) + day d"

definition weekday_name :: "date \<Rightarrow> string" where
  "weekday_name d =
     [''Monday'', ''Tuesday'', ''Wednesday'', ''Thursday'', ''Friday'', ''Saturday'',
      ''Sunday''] ! ((toordinal d + 6) mod 7)"

section \<open>The per-user schedule store\<close>

text \<open>
  \<open>schedules/<username>.json\<close>: the parsed file of each user, and the log of the
  users whose file \<open>save_sched\<close> has written, latest first.
\<close>

record store =
  sched_files :: "string \<Rightarrow> dict option"
  saved :: "string list"

definition zero_sched :: dict where
  "zero_sched =
     [(''current_index'', JInt 0), (''last_action_date'', JNull),
      (''last_action'', JStr ''NONE'')]"

definition load_sched :: "store \<Rightarrow> string \<Rightarrow> dict" where
  "load_sched st username =
     (case sched_files st username of Some d \<Rightarrow> d | None \<Rightarrow> zero_sched)"

definition save_sched :: "string \<Rightarrow> dict \<Rightarrow> store \<Rightarrow> store" where
  "save_sched username sched st =
     st\<lparr>sched_files := (sched_files st)(username \<mapsto> sched),
        saved := username # saved st\<rparr>"

text \<open>A store holding the listed schedule files, none of them written yet.\<close>

definition store_of :: "(string \<times> dict) list \<Rightarrow> store" where
  "store_of files = \<lparr>sched_files = map_of files, saved = []\<rparr>"

text \<open>The three fields as the schedulers read them, with their defaults.\<close>

abbreviation stored_index :: "store \<Rightarrow> string \<Rightarrow> json" where
  "stored_index st username \<equiv> dict_get (load_sched st username) ''current_index'' (JInt 0)"

abbreviation stored_action :: "store \<Rightarrow> string \<Rightarrow> json" where
  "stored_action st username \<equiv>
     dict_get (load_sched st username) ''last_action'' (JStr ''NONE'')"

abbreviation stored_date :: "store \<Rightarrow> string \<Rightarrow> json" where
  "stored_date st username \<equiv> dict_get (load_sched st username) ''last_action_date'' JNull"

section \<open>The rotation transition\<close>

subsection \<open>\<open>scripts/send_daily.py\<close>\<close>

definition send_daily_pick_today_index ::
  "(string \<Rightarrow> error + int) \<Rightarrow> string \<Rightarrow> string \<Rightarrow> int \<Rightarrow> store
     \<Rightarrow> (error + int) \<times> store" where
  "send_daily_pick_today_index int_str username today_iso tot st =
     (let sched = load_sched st username in
      case py_int int_str (dict_get sched ''current_index'' (JInt 0)) of
        Inl e \<Rightarrow> (Inl e, st)
      | Inr ci \<Rightarrow>
          (let idx = ci mod max 1 tot;
               last_action = dict_get sched ''last_action'' (JStr ''NONE'');
               last_date = dict_get sched ''last_action_date'' JNull;
               r = (if last_date \<noteq> JStr today_iso
                    then (case fromisoformat today_iso of
                            Inl e \<Rightarrow> Inl e
                          | Inr t \<Rightarrow>
                              (case minus_one_day t of
                                 Inl e \<Rightarrow> Inl e
                               | Inr y \<Rightarrow>
                                   (let yd = isoformat y;
                                        freeze = (last_action = JStr ''SKIPPED''
                                                  \<and> last_date = JStr yd)
                                    in Inr (if \<not> freeze then (idx + 1) mod max 1 tot
                                            else idx))))
                    else Inr idx)
           in case r of
                Inl e \<Rightarrow> (Inl e, st)
              | Inr idx' \<Rightarrow>
                  (let sched' =
                         dict_set ''last_action_date'' (JStr today_iso)
                           (dict_set ''last_action''
                              (dict_get sched ''last_action'' (JStr ''NONE''))
                              (dict_set ''current_index'' (JInt idx') sched))
                   in (Inr idx', save_sched username sched' st))))"

subsection \<open>\<open>scripts/lib/plans.py\<close>\<close>

text \<open>\<open>last_date >= yd\<close> with \<open>yd\<close> a string: an order on strings only.\<close>

fun ge_str :: "json \<Rightarrow> string \<Rightarrow> error + bool" where
  "ge_str (JStr s) yd = Inr (yd \<le> s)"
| "ge_str _ yd = Inl TypeError"

definition plans_pick_today_index ::
  "(string \<Rightarrow> error + int) \<Rightarrow> string \<Rightarrow> string \<Rightarrow> int \<Rightarrow> store
     \<Rightarrow> (error + int) \<times> store" where
  "plans_pick_today_index int_str username today tot st =
     (let sched = load_sched st username in
      case py_int int_str (dict_get sched ''current_index'' (JInt 0)) of
        Inl e \<Rightarrow> (Inl e, st)
      | Inr ci \<Rightarrow>
          (let idx = ci mod max 1 tot;
               last_action = dict_get sched ''last_action'' (JStr ''NONE'');
               last_date = dict_get sched ''last_action_date'' JNull
           in case fromisoformat today of
                Inl e \<Rightarrow> (Inl e, st)
              | Inr t \<Rightarrow>
                  (case minus_one_day t of
                     Inl e \<Rightarrow> (Inl e, st)
                   | Inr y \<Rightarrow>
                       (let yd = isoformat y in
                        case (if last_action = JStr ''SKIPPED'' \<and> last_date \<noteq> JNull
                              then ge_str last_date yd else Inr False) of
                          Inl e \<Rightarrow> (Inl e, st)
                        | Inr freeze \<Rightarrow>
                            (let idx' = (if \<not> freeze then (idx + 1) mod max 1 tot
                                         else idx);
                                 sched' =
                                   dict_set ''last_action_date'' (JStr today)
                                     (dict_set ''last_action'' (JStr ''NONE'')
                                        (dict_set ''current_index'' (JInt idx') sched))
                             in (Inr idx', save_sched username sched' st))))))"

section \<open>The canonical signer\<close>

text \<open>
  The parameters of a link are a dictionary from strings to scalars, which \<open>str\<close>
  renders.  HMAC-SHA256 is the standard library's; the signers take it as the
  argument \<open>mac\<close>, from the key and the message to the digest.
\<close>

datatype pval = PStr string | PInt int | PBool bool | PNone

type_synonym params = "(string \<times> pval) list"

fun str_of_nat :: "nat \<Rightarrow> string" where
  "str_of_nat n =
     (if n < 10 then [digit_char n] else str_of_nat (n div 10) @ [digit_char n])"

declare str_of_nat.simps [simp del]

fun py_str :: "pval \<Rightarrow> string" where
  "py_str (PStr s) = s"
| "py_str (PInt n) = (if n < 0 then CHR ''-'' # str_of_nat (nat (- n)) else str_of_nat (nat n))"
| "py_str (PBool b) = (if b then ''True'' else ''False'')"
| "py_str PNone = ''None''"

subsection \<open>\<open>urllib.parse.quote_plus\<close>\<close>

definition is_always_safe :: "char \<Rightarrow> bool" where
  "is_always_safe c = (is_alnum c \<or> c \<in> set ''_.-~'')"

definition hex_digit :: "nat \<Rightarrow> char" where
  "hex_digit n = ''0123456789ABCDEF'' ! (n mod 16)"

definition percent :: "char \<Rightarrow> string" where
  "percent c = [CHR ''%'', hex_digit (of_char c div 16), hex_digit (of_char c)]"

definition quote :: "string \<Rightarrow> string \<Rightarrow> string" where
  "quote s safe =
     concat (map (\<lambda>c. if is_always_safe c \<or> (c \<in> set safe \<and> of_char c < (128::nat))
                       then [c] else percent c) s)"

definition urllib_quote_plus :: "string \<Rightarrow> string \<Rightarrow> string" where
  "urllib_quote_plus s safe =
     (if CHR '' '' \<notin> set s then quote s safe
      else map (\<lambda>c. if c = CHR '' '' then CHR ''+'' else c) (quote s (safe @ '' '')))"

subsection \<open>URL-safe base64\<close>

definition b64_char :: "nat \<Rightarrow> char" where
  "b64_char n =
     ''ABCDEFGHIJKLMNOPQRSTUVWXYZabcdefghijklmnopqrstuvwxyz0123456789-_'' ! (n mod 64)"

fun urlsafe_b64encode :: "nat list \<Rightarrow> string" where
  "urlsafe_b64encode [] = []"
| "urlsafe_b64encode [a] =
     [b64_char (a div 4), b64_char ((a mod 4) * 16), CHR ''='', CHR ''='']"
| "urlsafe_b64encode [a, b] =
     [b64_char (a div 4), b64_char ((a mod 4) * 16 + b div 16),
      b64_char ((b mod 16) * 4), CHR ''='']"
| "urlsafe_b64encode (a # b # c # rest) =
     [b64_char (a div 4), b64_char ((a mod 4) * 16 + b div 16),
      b64_char ((b mod 16) * 4 + c div 64), b64_char (c mod 64)]
     @ urlsafe_b64encode rest"

definition rstrip_char :: "char \<Rightarrow> string \<Rightarrow> string" where
  "rstrip_char x s = rev (dropWhile (\<lambda>c. c = x) (rev s))"

definition lstrip_char :: "char \<Rightarrow> string \<Rightarrow> string" where
  "lstrip_char x s = dropWhile (\<lambda>c. c = x) s"

definition b64url :: "string \<Rightarrow> string" where
  "b64url b = rstrip_char CHR ''='' (urlsafe_b64encode (map of_char b))"

subsection \<open>\<open>scripts/lib/signing.py\<close>\<close>

definition signing_sign_params ::
  "(string \<Rightarrow> string \<Rightarrow> string) \<Rightarrow> params \<Rightarrow> string \<Rightarrow> error + string" where
  "signing_sign_params mac ps secret =
     (let items = sort (map (\<lambda>(k, v). (k, py_str v)) (filter (\<lambda>(k, v). k \<noteq> ''t'') ps));
          canonical = join ''&'' (map (\<lambda>(k, v). k @ ''='' @ urllib_quote_plus v []) items);
          m = mac secret canonical;
          token = rstrip_char CHR ''='' (urlsafe_b64encode (map of_char m))
      in Inr token)"

subsection \<open>\<open>scripts/send_daily.py\<close>\<close>

definition quote_plus :: "pval \<Rightarrow> string" where
  "quote_plus s = urllib_quote_plus (py_str s) []"

text \<open>\<open>params[k]\<close>.\<close>

definition item :: "params \<Rightarrow> string \<Rightarrow> error + pval" where
  "item ps k = (case map_of ps k of None \<Rightarrow> Inl KeyError | Some v \<Rightarrow> Inr v)"

text \<open>A list comprehension whose elements may raise: the first error ends it.\<close>

fun collect :: "(error + 'a) list \<Rightarrow> error + 'a list" where
  "collect [] = Inr []"
| "collect (Inl e # rs) = Inl e"
| "collect (Inr x # rs) = (case collect rs of Inl e \<Rightarrow> Inl e | Inr xs \<Rightarrow> Inr (x # xs))"

text \<open>\<open>SIGNING_SECRET\<close>, read from the environment, is the argument \<open>secret\<close>.\<close>

definition send_daily_sign_params ::
  "(string \<Rightarrow> string \<Rightarrow> string) \<Rightarrow> string \<Rightarrow> params \<Rightarrow> error + string" where
  "send_daily_sign_params mac secret ps =
     (if secret = [] then Inl RuntimeError
      else (let keys = sort (map fst ps) in
            case collect (map (\<lambda>k. case item ps k of
                                      Inl e \<Rightarrow> Inl e
                                    | Inr v \<Rightarrow> Inr (k @ ''='' @ quote_plus v)) keys) of
              Inl e \<Rightarrow> Inl e
            | Inr parts \<Rightarrow>
                (let canonical = join ''&'' parts;
                     m = mac secret canonical
                 in Inr (b64url m))))"

definition build_signed_url ::
  "(string \<Rightarrow> string \<Rightarrow> string) \<Rightarrow> string \<Rightarrow> string \<Rightarrow> params \<Rightarrow> error + string" where
  "build_signed_url mac secret base ps =
     (case send_daily_sign_params mac secret ps of
        Inl e \<Rightarrow> Inl e
      | Inr t \<Rightarrow>
          (let p = AList.update ''t'' (PStr t) ps;
               qs = join ''&'' (map (\<lambda>(k, v). k @ ''='' @ quote_plus v) p);
               joiner = (if CHR ''?'' \<in> set base then ''&'' else ''?'')
           in Inr (base @ joiner @ qs)))"

section \<open>The plan selector of \<open>scripts/send_daily.py\<close>\<close>

text \<open>
  What the selector reads and never writes: \<open>config/schedule.json\<close> when it exists,
  the files of \<open>splits/\<close> by name, and the activity file of a user and a date
  (\<open>None\<close> when the file is missing or is not JSON).  The files of \<open>splits/\<close> hold JSON
  objects.
\<close>

record env =
  schedule_json :: "dict option"
  split_files :: "string \<Rightarrow> dict option"
  history_files :: "string \<Rightarrow> string \<Rightarrow> json option"

definition DEFAULT_ROTATION_TITLES :: "string list" where
  "DEFAULT_ROTATION_TITLES =
     [''Push Day'', ''Pull Day'', ''Leg + Abs Day'', ''Focus Day'', ''Full Body Power Day'']"

definition TITLE_TO_FILE :: "(string \<times> string) list" where
  "TITLE_TO_FILE =
     [(''Push Day'', ''Push_Day.json''),
      (''Pull Day'', ''Pull_Day.json''),
      (''Leg + Abs Day'', ''Leg_plus_Abs_Day.json''),
      (''Focus Day'', ''Focus_Day.json''),
      (''Full Body Power Day'', ''Full_Body_Power_Day.json'')]"

text \<open>\<open>s.replace("--", "-")\<close>: left to right, without overlap.\<close>

fun replace_double_dash :: "string \<Rightarrow> string" where
  "replace_double_dash (a # b # cs) =
     (if a = CHR ''-'' \<and> b = CHR ''-'' then CHR ''-'' # replace_double_dash cs
      else a # replace_double_dash (b # cs))"
| "replace_double_dash cs = cs"

definition slug :: "string \<Rightarrow> string" where
  "slug s =
     replace_double_dash
       (rstrip_char CHR ''-''
          (lstrip_char CHR ''-''
             (map (\<lambda>c. if is_alnum c then lower_char c else CHR ''-'') s)))"

text \<open>\<open>Path.stem\<close>: the last component of the path without its last suffix.\<close>

definition path_name :: "string \<Rightarrow> string" where
  "path_name p = rev (takeWhile (\<lambda>c. c \<noteq> CHR ''/'') (rev p))"

definition stem :: "string \<Rightarrow> string" where
  "stem p =
     (let name = path_name p;
          suffix = takeWhile (\<lambda>c. c \<noteq> CHR ''.'') (rev name);
          i = length name - length suffix - 1
      in if CHR ''.'' \<in> set name \<and> 0 < i \<and> suffix \<noteq> [] then take i name else name)"

definition load_split_file :: "string \<Rightarrow> dict \<Rightarrow> dict" where
  "load_split_file p content =
     (let data = (if map_of content ''title'' = None
                  then dict_set ''title''
                         (JStr (map (\<lambda>c. if c = CHR ''-'' \<or> c = CHR ''_'' then CHR '' '' else c)
                                  (stem p)))
                         content
                  else content)
      in dict_set ''exercises'' (dict_get data ''exercises'' (JArr [])) data)"

definition load_default_split_by_title :: "env \<Rightarrow> string \<Rightarrow> error + dict" where
  "load_default_split_by_title ev title =
     (let mapped = (case map_of TITLE_TO_FILE title of
                      None \<Rightarrow> None
                    | Some f \<Rightarrow>
                        (case split_files ev f of
                           None \<Rightarrow> None
                         | Some c \<Rightarrow> Some (load_split_file f c)))
      in case mapped of
           Some d \<Rightarrow> Inr d
         | None \<Rightarrow>
             (let fn = slug title @ ''.json'' in
              case split_files ev fn of
                Some c \<Rightarrow> Inr (load_split_file fn c)
              | None \<Rightarrow> Inl FileNotFoundError))"

text \<open>
  \<open>load_custom_plan_for_today\<close>: \<open>today_iso.split("-")\<close> must give three parts, and
  the activity file, when there is one, must hold an object.
\<close>

definition load_custom_plan_for_today :: "env \<Rightarrow> string \<Rightarrow> string \<Rightarrow> error + dict option" where
  "load_custom_plan_for_today ev username today_iso =
     (if length (filter (\<lambda>c. c = CHR ''-'') today_iso) \<noteq> 2 then Inl ValueError
      else case history_files ev username today_iso of
             None \<Rightarrow> Inr None
           | Some (JObj data) \<Rightarrow>
               (let plan = dict_get data ''custom_plan'' JNull in
                if \<not> truthy plan then Inr None
                else (case plan of
                        JObj pl \<Rightarrow>
                          Inr (Some [(''title'', dict_get pl ''title'' (JStr ''Custom Session'')),
                                     (''exercises'', dict_get pl ''exercises'' (JArr []))])
                      | _ \<Rightarrow> Inl AttributeError))
           | Some _ \<Rightarrow> Inl AttributeError)"

subsection \<open>The weekday schedule override\<close>

datatype scheduled = NoSchedule | Rest dict | Split dict

definition rest_payload :: dict where
  "rest_payload =
     [(''title'', JStr ''Rest Day''),
      (''message'', JStr ''Today is a rest day. If you still want to train, use Customized Session to log a light or mobility workout.'')]"

text \<open>\<open>isinstance(entry, str)\<close> and the two tests on a string entry.\<close>

fun is_blank_str :: "json \<Rightarrow> bool" where
  "is_blank_str (JStr s) = (strip s = [])"
| "is_blank_str _ = False"

fun is_rest_str :: "json \<Rightarrow> bool" where
  "is_rest_str (JStr s) = (lower (strip s) = ''rest'')"
| "is_rest_str _ = False"

definition pick_scheduled_split_or_rest :: "env \<Rightarrow> string \<Rightarrow> error + scheduled" where
  "pick_scheduled_split_or_rest ev today_iso =
     (case schedule_json ev of
        None \<Rightarrow> Inr NoSchedule
      | Some sched \<Rightarrow>
          (case fromisoformat today_iso of
             Inl e \<Rightarrow> Inl e
           | Inr d \<Rightarrow>
               (let weekday = weekday_name d;
                    entry = dict_get sched weekday JNull
                in if entry = JNull \<or> is_blank_str entry \<or> is_rest_str entry
                   then Inr (Rest rest_payload)
                   else (case entry of
                           JStr f \<Rightarrow>
                             (case split_files ev f of
                                None \<Rightarrow> Inl FileNotFoundError
                              | Some c \<Rightarrow> Inr (Split (load_split_file f c)))
                         | _ \<Rightarrow> Inl ValueError))))"

subsection \<open>The unified picker\<close>

text \<open>\<open>xs[i]\<close>: a negative index counts from the end.\<close>

definition py_index :: "'a list \<Rightarrow> int \<Rightarrow> error + 'a" where
  "py_index xs i =
     (if 0 \<le> i \<and> i < int (length xs) then Inr (xs ! nat i)
      else if i < 0 \<and> - int (length xs) \<le> i then Inr (xs ! nat (int (length xs) + i))
      else Inl IndexError)"

definition pick_split_for_today ::
  "env \<Rightarrow> (string \<Rightarrow> error + int) \<Rightarrow> string \<Rightarrow> string \<Rightarrow> store
     \<Rightarrow> (error + dict) \<times> store" where
  "pick_split_for_today ev int_str username today_iso st =
     (case pick_scheduled_split_or_rest ev today_iso of
        Inl e \<Rightarrow> (Inl e, st)
      | Inr (Rest payload) \<Rightarrow> (Inr ((''__rest__'', JBool True) # payload), st)
      | Inr (Split payload) \<Rightarrow> (Inr payload, st)
      | Inr NoSchedule \<Rightarrow>
          (case load_custom_plan_for_today ev username today_iso of
             Inl e \<Rightarrow> (Inl e, st)
           | Inr custom \<Rightarrow>
               (case (case custom of
                        None \<Rightarrow> None
                      | Some c \<Rightarrow>
                          if truthy (dict_get c ''exercises'' JNull) then Some c else None) of
                  Some c \<Rightarrow>
                    (case send_daily_pick_today_index int_str username today_iso
                            (int (length DEFAULT_ROTATION_TITLES)) st of
                       (Inl e, st') \<Rightarrow> (Inl e, st')
                     | (Inr _, st') \<Rightarrow> (Inr c, st'))
                | None \<Rightarrow>
                    (case send_daily_pick_today_index int_str username today_iso
                            (int (length DEFAULT_ROTATION_TITLES)) st of
                       (Inl e, st') \<Rightarrow> (Inl e, st')
                     | (Inr idx, st') \<Rightarrow>
                         (case py_index DEFAULT_ROTATION_TITLES idx of
                            Inl e \<Rightarrow> (Inl e, st')
                          | Inr title \<Rightarrow> (load_default_split_by_title ev title, st'))))))"

text \<open>
  An environment with the given weekday schedule and files under \<open>splits/\<close>, and no
  activity file.
\<close>

definition env_of :: "dict option \<Rightarrow> (string \<times> dict) list \<Rightarrow> env" where
  "env_of sched splits =
     \<lparr>schedule_json = sched, split_files = map_of splits, history_files = (\<lambda>u d. None)\<rparr>"

section \<open>Properties of the rotation transition\<close>

subsection \<open>Unfolding the definitions on concrete inputs\<close>

lemmas date_defs = weekday_name_def toordinal_def days_before_year_def days_before_month_def
  days_in_month_def is_leap_def fromisoformat_def is_digit_def digits_val_def digit_val_def
  valid_date_def minus_one_day_def isoformat_def pad2_def pad4_def digit_char_def

lemmas store_defs = store_of_def load_sched_def save_sched_def zero_sched_def dict_get_def
  dict_set_def

lemmas rotation_defs = send_daily_pick_today_index_def plans_pick_today_index_def Let_def
  store_defs date_defs


subsection \<open>Dictionaries and the store\<close>

lemma dict_get_set_same: "dict_get (dict_set k v d) k dflt = v"
  by (simp add: dict_get_def dict_set_def update_conv')

lemma dict_get_set_other: "k' \<noteq> k \<Longrightarrow> dict_get (dict_set k v d) k' dflt = dict_get d k' dflt"
  by (simp add: dict_get_def dict_set_def update_conv')

lemma load_save_same: "load_sched (save_sched u s st) u = s"
  by (simp add: load_sched_def save_sched_def)

lemma send_daily_result:
  assumes "py_int int_str (dict_get (load_sched st u) ''current_index'' (JInt 0)) = Inr ci"
    and "fromisoformat today = Inr t" and "minus_one_day t = Inr y"
  shows "fst (send_daily_pick_today_index int_str u today tot st) =
     Inr (if dict_get (load_sched st u) ''last_action_date'' JNull = JStr today then ci mod max 1 tot
          else if dict_get (load_sched st u) ''last_action'' (JStr ''NONE'') = JStr ''SKIPPED''
                \<and> dict_get (load_sched st u) ''last_action_date'' JNull = JStr (isoformat y)
          then ci mod max 1 tot else (ci mod max 1 tot + 1) mod max 1 tot)"
  using assms by (simp add: send_daily_pick_today_index_def Let_def)

lemma send_daily_saves:
  assumes "send_daily_pick_today_index int_str u today tot st = (Inr i, st')"
  shows "st' = save_sched u
           (dict_set ''last_action_date'' (JStr today)
              (dict_set ''last_action'' (dict_get (load_sched st u) ''last_action'' (JStr ''NONE''))
                 (dict_set ''current_index'' (JInt i) (load_sched st u)))) st"
  using assms
  by (auto simp add: send_daily_pick_today_index_def Let_def split: sum.splits if_splits)

lemma send_daily_error_keeps_store:
  assumes "send_daily_pick_today_index int_str u today tot st = (Inl e, st')"
  shows "st' = st"
  using assms
  by (auto simp add: send_daily_pick_today_index_def Let_def split: sum.splits if_splits)

lemma send_daily_same_day:
  assumes "py_int int_str (dict_get (load_sched st u) ''current_index'' (JInt 0)) = Inr ci"
    and "dict_get (load_sched st u) ''last_action_date'' JNull = JStr today"
  shows "fst (send_daily_pick_today_index int_str u today tot st) = Inr (ci mod max 1 tot)"
  using assms by (simp add: send_daily_pick_today_index_def Let_def)

subsection \<open>What the two transitions return and write\<close>

lemma plans_result:
  assumes "py_int int_str (stored_index st u) = Inr ci"
    and "fromisoformat today = Inr t" and "minus_one_day t = Inr y"
    and "stored_action st u = JStr ''SKIPPED'' \<Longrightarrow>
           stored_date st u = JNull \<or> (\<exists>s. stored_date st u = JStr s)"
  shows "fst (plans_pick_today_index int_str u today tot st) =
     Inr (if stored_action st u = JStr ''SKIPPED''
                \<and> (\<exists>s. stored_date st u = JStr s \<and> isoformat y \<le> s)
          then ci mod max 1 tot else (ci mod max 1 tot + 1) mod max 1 tot)"
  using assms by (auto simp add: plans_pick_today_index_def Let_def)

lemma plans_saves:
  assumes "plans_pick_today_index int_str u today tot st = (Inr i, st')"
  shows "st' = save_sched u
           (dict_set ''last_action_date'' (JStr today)
              (dict_set ''last_action'' (JStr ''NONE'')
                 (dict_set ''current_index'' (JInt i) (load_sched st u)))) st"
  using assms
  by (auto simp add: plans_pick_today_index_def Let_def split: sum.splits if_splits)

lemma plans_error_keeps_store:
  assumes "plans_pick_today_index int_str u today tot st = (Inl e, st')"
  shows "st' = st"
  using assms
  by (auto simp add: plans_pick_today_index_def Let_def split: sum.splits if_splits)

lemma plans_baseline:
  assumes "plans_pick_today_index int_str u today tot st = (Inr i, st')"
  shows "stored_index st' u = JInt i \<and> stored_action st' u = JStr ''NONE''
         \<and> stored_date st' u = JStr today"
  by (simp add: plans_saves [OF assms] load_save_same dict_get_set_same dict_get_set_other)

lemma send_daily_range:
  assumes "0 < tot" and "send_daily_pick_today_index int_str u today tot st = (Inr i, st')"
  shows "0 \<le> i \<and> i < tot"
  using assms
  by (auto simp add: send_daily_pick_today_index_def Let_def split: sum.splits if_splits)

lemma plans_range:
  assumes "0 < tot" and "plans_pick_today_index int_str u today tot st = (Inr i, st')"
  shows "0 \<le> i \<and> i < tot"
  using assms
  by (auto simp add: plans_pick_today_index_def Let_def split: sum.splits if_splits)

text \<open>
  The sender's transition is idempotent within a day: a second call with the same
  date and rotation length returns the same index and leaves the schedule files as
  they are.
\<close>

lemma send_daily_idempotent:
  assumes "send_daily_pick_today_index int_str u today tot st = (Inr i, st')"
  shows "fst (send_daily_pick_today_index int_str u today tot st') = Inr i"
    and "sched_files (snd (send_daily_pick_today_index int_str u today tot st')) = sched_files st'"
proof -
  have st': "st' = save_sched u
           (dict_set ''last_action_date'' (JStr today)
              (dict_set ''last_action'' (dict_get (load_sched st u) ''last_action'' (JStr ''NONE''))
                 (dict_set ''current_index'' (JInt i) (load_sched st u)))) st"
    using assms by (rule send_daily_saves)
  have range: "i mod max 1 tot = i"
    using assms
    by (auto simp add: send_daily_pick_today_index_def Let_def split: sum.splits if_splits)
  have ci: "py_int int_str (dict_get (load_sched st' u) ''current_index'' (JInt 0)) = Inr i"
    by (simp add: st' load_save_same dict_get_set_same dict_get_set_other)
  have ld: "dict_get (load_sched st' u) ''last_action_date'' JNull = JStr today"
    by (simp add: st' load_save_same dict_get_set_same dict_get_set_other)
  show "fst (send_daily_pick_today_index int_str u today tot st') = Inr i"
    using send_daily_same_day [OF ci ld, of tot] range by simp
  show "sched_files (snd (send_daily_pick_today_index int_str u today tot st')) = sched_files st'"
  proof -
    have la: "dict_get (load_sched st' u) ''last_action'' (JStr ''NONE'')
               = dict_get (load_sched st u) ''last_action'' (JStr ''NONE'')"
      by (simp add: st' load_save_same dict_get_set_same dict_get_set_other)
    have m1: "map_of (load_sched st' u) ''current_index'' = Some (JInt i)"
      by (simp add: st' load_save_same dict_set_def update_conv')
    have m2: "map_of (load_sched st' u) ''last_action''
               = Some (dict_get (load_sched st u) ''last_action'' (JStr ''NONE''))"
      by (simp add: st' load_save_same dict_set_def update_conv')
    have m3: "map_of (load_sched st' u) ''last_action_date'' = Some (JStr today)"
      by (simp add: st' load_save_same dict_set_def update_conv')
    have same: "dict_set ''last_action_date'' (JStr today)
              (dict_set ''last_action'' (dict_get (load_sched st' u) ''last_action'' (JStr ''NONE''))
                 (dict_set ''current_index'' (JInt i) (load_sched st' u))) = load_sched st' u"
      by (simp add: la dict_set_def update_triv m1 m2 m3)
    have files: "sched_files st' u = Some (load_sched st' u)"
      by (simp add: st' load_sched_def save_sched_def)
    obtain r st2 where r: "send_daily_pick_today_index int_str u today tot st' = (r, st2)"
      by (cases "send_daily_pick_today_index int_str u today tot st'")
    with \<open>fst (send_daily_pick_today_index int_str u today tot st') = Inr i\<close> have "r = Inr i" by simp
    with r have "st2 = save_sched u (load_sched st' u) st'"
      using send_daily_saves [where int_str = int_str and u = u and today = today and tot = tot
          and st = st' and i = i and st' = st2] same by simp
    then have "sched_files st2 = sched_files st'"
      using files by (auto simp add: save_sched_def)
    with r show ?thesis by simp
  qed
qed

subsection \<open>Same-day re-invocation\<close>

text \<open>
  C1 (same-day idempotence).  The transition of \<open>scripts/lib/plans.py\<close> has no
  same-day guard: on an empty store the first call of the day returns index 1 and
  records the date, and a second call with the same date and the same rotation
  length returns index 2.
\<close>

theorem plans_same_day_advances_again:
  "fst (plans_pick_today_index int_str ''u'' ''2024-03-10'' 3 (store_of [])) = Inr 1
   \<and> stored_date (snd (plans_pick_today_index int_str ''u'' ''2024-03-10'' 3 (store_of []))) ''u''
       = JStr ''2024-03-10''
   \<and> stored_index (snd (plans_pick_today_index int_str ''u'' ''2024-03-10'' 3 (store_of []))) ''u''
       = JInt 1
   \<and> fst (plans_pick_today_index int_str ''u'' ''2024-03-10'' 3
           (snd (plans_pick_today_index int_str ''u'' ''2024-03-10'' 3 (store_of [])))) = Inr 2"
  by (simp add: rotation_defs)

subsection \<open>The freeze law\<close>

text \<open>
  With the last action SKIPPED, a stored index \<open>k\<close> in range and the stored date
  equal to yesterday, both transitions return \<open>k\<close>; the sender, when the stored
  date is not today, freezes on that date alone, and the transition of \<open>plans.py\<close>
  compares the stored date with yesterday in the order of strings.
\<close>

lemma freeze_law:
  assumes "fromisoformat today = Inr t" and "minus_one_day t = Inr y"
    and "stored_index st u = JInt k" and "0 \<le> k" and "k < tot"
    and "stored_action st u = JStr ''SKIPPED''"
  shows "(stored_date st u = JStr (isoformat y) \<longrightarrow>
            fst (send_daily_pick_today_index int_str u today tot st) = Inr k
            \<and> fst (plans_pick_today_index int_str u today tot st) = Inr k)
       \<and> (stored_date st u \<noteq> JStr today \<longrightarrow>
            fst (send_daily_pick_today_index int_str u today tot st) =
              Inr (if stored_date st u = JStr (isoformat y) then k else (k + 1) mod tot))
       \<and> (stored_date st u = JStr s \<longrightarrow>
            fst (plans_pick_today_index int_str u today tot st) =
              Inr (if isoformat y \<le> s then k else (k + 1) mod tot))"
proof -
  have ci: "py_int int_str (stored_index st u) = Inr k"
    using assms(3) by simp
  have m: "max 1 tot = tot" "k mod tot = k"
    using assms(4,5) by simp_all
  have sd: "fst (send_daily_pick_today_index int_str u today tot st) =
     Inr (if stored_date st u = JStr today then k
          else if stored_date st u = JStr (isoformat y) then k else (k + 1) mod tot)"
    using send_daily_result [OF ci assms(1,2), of tot] assms(6) m by simp
  have pl: "fst (plans_pick_today_index int_str u today tot st) =
              Inr (if isoformat y \<le> s' then k else (k + 1) mod tot)"
    if "stored_date st u = JStr s'" for s'
    using plans_result [OF ci assms(1,2), of tot] assms(6) m that by simp
  show ?thesis
    using sd pl by auto
qed

text \<open>
  C2 (freeze law).  The freeze condition of \<open>plans.py\<close> is not the strict
  conjunction: with the last action SKIPPED and a stored date two days after today
  it returns the index 1 unchanged, where the sender, whose condition is the strict
  one, advances to 2.
\<close>

theorem plans_freezes_on_later_date:
  "fst (plans_pick_today_index int_str ''u'' ''2024-03-10'' 5
      (store_of [(''u'', [(''current_index'', JInt 1), (''last_action'', JStr ''SKIPPED''),
                          (''last_action_date'', JStr ''2024-03-12'')])])) = Inr 1
   \<and> fst (send_daily_pick_today_index int_str ''u'' ''2024-03-10'' 5
      (store_of [(''u'', [(''current_index'', JInt 1), (''last_action'', JStr ''SKIPPED''),
                          (''last_action_date'', JStr ''2024-03-12'')])])) = Inr 2
   \<and> fromisoformat ''2024-03-10'' = Inr (Date 2024 3 10)
   \<and> minus_one_day (Date 2024 3 10) = Inr (Date 2024 3 9)
   \<and> isoformat (Date 2024 3 9) = ''2024-03-09''"
  by (simp add: rotation_defs)

subsection \<open>The advance law\<close>

text \<open>
  C3 (advance law with wrap-around).  With the last action COMPLETED or NONE, a stored
  index \<open>k\<close> and a date not yet recorded, both transitions return \<open>(k + 1) mod tot\<close>
  for a rotation of positive length \<open>tot\<close>.  The witness has the wrap-around from 4
  to 0 in a rotation of 5 and the first run on an empty store in a rotation of 3.
\<close>

theorem advance_law:
  assumes "fromisoformat today = Inr t" and "minus_one_day t = Inr y"
    and "0 < tot"
    and "stored_index st u = JInt k"
    and "stored_action st u = JStr ''COMPLETED'' \<or> stored_action st u = JStr ''NONE''"
    and "stored_date st u \<noteq> JStr today"
  shows "fst (send_daily_pick_today_index int_str u today tot st) = Inr ((k + 1) mod tot)
       \<and> fst (plans_pick_today_index int_str u today tot st) = Inr ((k + 1) mod tot)"
proof -
  have ci: "py_int int_str (stored_index st u) = Inr k"
    using assms(4) by simp
  have m: "max 1 tot = tot"
    using assms(3) by simp
  have ns: "stored_action st u \<noteq> JStr ''SKIPPED''"
    using assms(5) by auto
  have "fst (send_daily_pick_today_index int_str u today tot st) = Inr ((k mod tot + 1) mod tot)"
    using send_daily_result [OF ci assms(1,2), of tot] assms(6) ns m by simp
  moreover have "fst (plans_pick_today_index int_str u today tot st) = Inr ((k mod tot + 1) mod tot)"
    using plans_result [OF ci assms(1,2), of tot] ns m by simp
  ultimately show ?thesis
    by (simp add: mod_add_left_eq)
qed

theorem advance_law_witness:
  "\<forall>int_str.
     fst (send_daily_pick_today_index int_str ''u'' ''2024-03-10'' 5
        (store_of [(''u'', [(''current_index'', JInt 4), (''last_action'', JStr ''COMPLETED''),
                            (''last_action_date'', JStr ''2024-03-09'')])])) = Inr 0
   \<and> fst (plans_pick_today_index int_str ''u'' ''2024-03-10'' 5
        (store_of [(''u'', [(''current_index'', JInt 4), (''last_action'', JStr ''COMPLETED''),
                            (''last_action_date'', JStr ''2024-03-09'')])])) = Inr 0
   \<and> fst (send_daily_pick_today_index int_str ''u'' ''2024-03-10'' 3 (store_of [])) = Inr 1
   \<and> fst (plans_pick_today_index int_str ''u'' ''2024-03-10'' 3 (store_of [])) = Inr 1"
  (is "\<forall>int_str. ?P int_str")
proof (rule allI)
  fix int_str :: "string \<Rightarrow> error + int"
  let ?st = "store_of [(''u'', [(''current_index'', JInt 4), (''last_action'', JStr ''COMPLETED''),
                            (''last_action_date'', JStr ''2024-03-09'')])]"
  have h1: "fromisoformat ''2024-03-10'' = Inr (Date 2024 3 10)" by (simp add: rotation_defs)
  have h2: "minus_one_day (Date 2024 3 10) = Inr (Date 2024 3 9)" by (simp add: rotation_defs)
  have a4: "stored_index ?st ''u'' = JInt 4" by (simp add: rotation_defs)
  have a5: "stored_action ?st ''u'' = JStr ''COMPLETED'' \<or> stored_action ?st ''u'' = JStr ''NONE''"
    by (simp add: rotation_defs)
  have a6: "stored_date ?st ''u'' \<noteq> JStr ''2024-03-10''" by (simp add: rotation_defs)
  have b4: "stored_index (store_of []) ''u'' = JInt 0" by (simp add: rotation_defs)
  have b5: "stored_action (store_of []) ''u'' = JStr ''COMPLETED''
            \<or> stored_action (store_of []) ''u'' = JStr ''NONE''"
    by (simp add: rotation_defs)
  have b6: "stored_date (store_of []) ''u'' \<noteq> JStr ''2024-03-10''" by (simp add: rotation_defs)
  from advance_law [where tot = 5 and int_str = int_str, OF h1 h2 _ a4 a5 a6]
    advance_law [where tot = 3 and int_str = int_str, OF h1 h2 _ b4 b5 b6]
  show "?P int_str" by simp
qed

subsection \<open>The baseline that is written\<close>

text \<open>
  C4 (baseline persistence).  The sender writes back the last action it read: after
  a day that was SKIPPED the file holds SKIPPED again, under today's date.
\<close>

theorem send_daily_keeps_last_action:
  "load_sched (snd (send_daily_pick_today_index int_str ''u'' ''2024-03-10'' 5
      (store_of [(''u'', [(''current_index'', JInt 2), (''last_action'', JStr ''SKIPPED''),
                          (''last_action_date'', JStr ''2024-03-09'')])]))) ''u''
   = [(''current_index'', JInt 2), (''last_action'', JStr ''SKIPPED''),
      (''last_action_date'', JStr ''2024-03-10'')]"
  by (simp add: rotation_defs)

subsection \<open>The index stays in bounds\<close>

text \<open>
  C9 (bounds under a change of rotation length).  For a rotation of positive length
  \<open>tot\<close> and any stored state, an index that either transition returns lies in
  \<open>0..<tot\<close> and is the index written to the store; and when \<open>int\<close> of the stored
  index returns \<open>ci\<close>, today is a date with a yesterday and the stored date is a
  string or null, both transitions return, and they return \<open>ci mod tot\<close> or its
  successor modulo \<open>tot\<close>.
\<close>

theorem index_in_bounds:
  assumes "0 < tot"
  shows "(\<forall>i st'. send_daily_pick_today_index int_str u today tot st = (Inr i, st') \<longrightarrow>
            0 \<le> i \<and> i < tot \<and> stored_index st' u = JInt i)
       \<and> (\<forall>i st'. plans_pick_today_index int_str u today tot st = (Inr i, st') \<longrightarrow>
            0 \<le> i \<and> i < tot \<and> stored_index st' u = JInt i)
       \<and> (\<forall>ci t y. py_int int_str (stored_index st u) = Inr ci \<and> fromisoformat today = Inr t
             \<and> minus_one_day t = Inr y
             \<and> (stored_date st u = JNull \<or> (\<exists>s. stored_date st u = JStr s)) \<longrightarrow>
            (\<exists>i. fst (send_daily_pick_today_index int_str u today tot st) = Inr i
                  \<and> (i = ci mod tot \<or> i = (ci mod tot + 1) mod tot))
          \<and> (\<exists>i. fst (plans_pick_today_index int_str u today tot st) = Inr i
                  \<and> (i = ci mod tot \<or> i = (ci mod tot + 1) mod tot)))"
proof -
  have m: "max 1 tot = tot"
    using assms by simp
  have a: "0 \<le> i \<and> i < tot \<and> stored_index st' u = JInt i"
    if "send_daily_pick_today_index int_str u today tot st = (Inr i, st')" for i st'
    using send_daily_range [OF assms that] send_daily_saves [OF that]
    by (simp add: load_save_same dict_get_set_same dict_get_set_other)
  have b: "0 \<le> i \<and> i < tot \<and> stored_index st' u = JInt i"
    if "plans_pick_today_index int_str u today tot st = (Inr i, st')" for i st'
    using plans_range [OF assms that] plans_baseline [OF that] by simp
  have c: "(\<exists>i. fst (send_daily_pick_today_index int_str u today tot st) = Inr i
                  \<and> (i = ci mod tot \<or> i = (ci mod tot + 1) mod tot))
          \<and> (\<exists>i. fst (plans_pick_today_index int_str u today tot st) = Inr i
                  \<and> (i = ci mod tot \<or> i = (ci mod tot + 1) mod tot))"
    if "py_int int_str (stored_index st u) = Inr ci" "fromisoformat today = Inr t"
       "minus_one_day t = Inr y"
       "stored_date st u = JNull \<or> (\<exists>s. stored_date st u = JStr s)" for ci t y
    using send_daily_result [OF that(1,2,3), of tot] plans_result [OF that(1,2,3), of tot]
      that(4) m by auto
  show ?thesis
    using a b c by blast
qed

theorem index_in_bounds_witness:
  "\<forall>int_str.
     send_daily_pick_today_index int_str ''u'' ''2024-03-10'' 3
       (store_of [(''u'', [(''current_index'', JInt 4), (''last_action'', JStr ''COMPLETED''),
                           (''last_action_date'', JStr ''2024-03-09'')])])
     = (Inr 2, snd (send_daily_pick_today_index int_str ''u'' ''2024-03-10'' 3
         (store_of [(''u'', [(''current_index'', JInt 4), (''last_action'', JStr ''COMPLETED''),
                           (''last_action_date'', JStr ''2024-03-09'')])])))
   \<and> (0::int) \<le> 2 \<and> (2::int) < 3
   \<and> stored_index (snd (send_daily_pick_today_index int_str ''u'' ''2024-03-10'' 3
       (store_of [(''u'', [(''current_index'', JInt 4), (''last_action'', JStr ''COMPLETED''),
                         (''last_action_date'', JStr ''2024-03-09'')])]))) ''u'' = JInt 2
   \<and> fst (plans_pick_today_index int_str ''u'' ''2024-03-10'' 3
       (store_of [(''u'', [(''current_index'', JInt 4), (''last_action'', JStr ''COMPLETED''),
                         (''last_action_date'', JStr ''2024-03-09'')])])) = Inr 2"
  (is "\<forall>int_str. ?P int_str")
proof (rule allI)
  fix int_str :: "string \<Rightarrow> error + int"
  let ?st = "store_of [(''u'', [(''current_index'', JInt 4), (''last_action'', JStr ''COMPLETED''),
                         (''last_action_date'', JStr ''2024-03-09'')])]"
  have r: "fst (send_daily_pick_today_index int_str ''u'' ''2024-03-10'' 3 ?st) = Inr 2"
    by (simp add: rotation_defs)
  then have e: "send_daily_pick_today_index int_str ''u'' ''2024-03-10'' 3 ?st
             = (Inr 2, snd (send_daily_pick_today_index int_str ''u'' ''2024-03-10'' 3 ?st))"
    by (metis prod.collapse)
  have p: "fst (plans_pick_today_index int_str ''u'' ''2024-03-10'' 3 ?st) = Inr 2"
    by (simp add: rotation_defs)
  have "(0::int) < 3" by simp
  from index_in_bounds [where int_str = int_str and u = "''u''" and today = "''2024-03-10''"
      and st = ?st, OF this] e p
  show "?P int_str" by blast
qed

section \<open>Properties of the signers\<close>

lemmas quote_defs = urllib_quote_plus_def quote_def is_always_safe_def is_alnum_def
  is_digit_def is_upper_def is_lower_def quote_plus_def

subsection \<open>Sorting the items by key\<close>

lemma collect_items:
  assumes "set ks \<subseteq> fst ` set ps"
  shows "collect (map (\<lambda>k. case item ps k of Inl e \<Rightarrow> Inl e
                                 | Inr v \<Rightarrow> Inr (k @ ''='' @ quote_plus v)) ks)
         = Inr (map (\<lambda>k. k @ ''='' @ quote_plus (the (map_of ps k))) ks)"
  using assms
proof (induction ks)
  case Nil
  then show ?case by simp
next
  case (Cons k ks)
  then have "k \<in> fst ` set ps" by simp
  then obtain v where "map_of ps k = Some v"
    by (metis domD dom_map_of_conv_image_fst)
  with Cons show ?case
    by (simp add: item_def)
qed

lemma sorted_keyed:
  fixes ks :: "string list"
  assumes "sorted ks" and "distinct ks"
  shows "sorted (map (\<lambda>k. (k, g k)) ks)"
proof -
  have "sorted_wrt (<) ks"
    using assms by (simp add: strict_sorted_iff)
  then have "sorted_wrt (\<lambda>a b. (a, g a) \<le> (b, g b)) ks"
    by (rule sorted_wrt_mono_rel [rotated]) (simp add: less_eq_prod_def)
  then show ?thesis
    by (simp add: sorted_wrt_map)
qed

lemma filter_no_t:
  assumes "''t'' \<notin> fst ` set ps"
  shows "filter (\<lambda>(k, v). k \<noteq> ''t'') ps = ps"
  using assms by (induction ps) auto


lemma sort_keyed:
  fixes ks :: "string list"
  assumes "distinct ks"
  shows "sort (map (\<lambda>k. (k, g k)) ks) = map (\<lambda>k. (k, g k)) (sort ks)"
proof (rule sorted_distinct_set_unique)
  have inj: "inj_on (\<lambda>k. (k, g k)) A" for A
    by (simp add: inj_on_def)
  show "sorted (sort (map (\<lambda>k. (k, g k)) ks))"
    by (rule sorted_sort)
  show "sorted (map (\<lambda>k. (k, g k)) (sort ks))"
    by (rule sorted_keyed) (simp_all add: assms)
  show "distinct (sort (map (\<lambda>k. (k, g k)) ks))"
    by (simp only: distinct_sort distinct_map assms inj simp_thms)
  show "distinct (map (\<lambda>k. (k, g k)) (sort ks))"
    by (simp only: distinct_sort distinct_map assms inj simp_thms)
  show "set (sort (map (\<lambda>k. (k, g k)) ks)) = set (map (\<lambda>k. (k, g k)) (sort ks))"
    by (simp only: set_sort set_map)
qed

lemma items_by_key:
  fixes ps :: params
  assumes "distinct (map fst ps)"
  shows "map (\<lambda>(k, v). (k, py_str v)) ps
         = map (\<lambda>k. (k, py_str (the (map_of ps k)))) (map fst ps)"
proof -
  have "map_of ps k = Some v" if "(k, v) \<in> set ps" for k v
    using assms that by (rule map_of_is_SomeI)
  then have "(case p of (k, v) \<Rightarrow> (k, py_str v)) = (fst p, py_str (the (map_of ps (fst p))))"
    if "p \<in> set ps" for p
    using that by (cases p) simp
  then show ?thesis
    by (simp add: comp_def cong: map_cong)
qed


lemma sort_items:
  fixes ps :: params
  assumes "distinct (map fst ps)"
  shows "sort (map (\<lambda>(k, v). (k, py_str v)) ps)
         = map (\<lambda>k. (k, py_str (the (map_of ps k)))) (sort (map fst ps))"
  by (simp only: items_by_key [OF assms] sort_keyed [OF assms])

subsection \<open>The reserved key\<close>

text \<open>The library signer leaves the entry of \<open>t\<close> out of what it signs.\<close>

lemma signing_ignores_t:
  "signing_sign_params mac ps secret = signing_sign_params mac (AList.delete ''t'' ps) secret"
proof -
  have "filter (\<lambda>(k, v). k \<noteq> ''t'') (AList.delete ''t'' ps) = filter (\<lambda>(k, v). k \<noteq> ''t'') ps"
    by (induction ps) auto
  then show ?thesis
    by (simp only: signing_sign_params_def)
qed

text \<open>
  The sender's signer is called by \<open>build_signed_url\<close> alone, on the parameters
  before \<open>t\<close> is added to them.
\<close>

lemma update_fresh:
  assumes "k \<notin> fst ` set ps"
  shows "AList.update k v ps = ps @ [(k, v)]"
  using assms by (induction ps) auto

lemma delete_fresh:
  assumes "k \<notin> fst ` set ps"
  shows "AList.delete k (ps @ [(k, v)]) = ps"
  using assms by (induction ps) (auto simp add: AList.delete_eq)

lemma send_daily_token:
  assumes "secret \<noteq> []"
  shows "send_daily_sign_params mac secret ps
         = Inr (b64url (mac secret
             (join ''&'' (map (\<lambda>k. k @ ''='' @ quote_plus (the (map_of ps k)))
                            (sort (map fst ps))))))"
proof -
  have "set (sort (map fst ps)) \<subseteq> fst ` set ps" by simp
  then show ?thesis
    using assms
    by (simp only: send_daily_sign_params_def Let_def collect_items if_False sum.case)
qed

text \<open>
  C5 (reserved-key exclusion), as amended.  The library signer gives the same
  signature to parameters with \<open>t\<close> and to the same parameters without it.  The
  sender signs before it adds \<open>t\<close>: for parameters without \<open>t\<close> and a secret that is
  not empty, \<open>build_signed_url\<close> appends \<open>t\<close> with the signature of the parameters,
  which is the signature of the URL's parameters with \<open>t\<close> removed.
\<close>

theorem reserved_key_excluded:
  "signing_sign_params mac ps secret = signing_sign_params mac (AList.delete ''t'' ps) secret
   \<and> (''t'' \<notin> fst ` set ps \<and> secret \<noteq> [] \<longrightarrow>
        (\<exists>tok. send_daily_sign_params mac secret ps = Inr tok
           \<and> build_signed_url mac secret base ps
               = Inr (base @ (if CHR ''?'' \<in> set base then ''&'' else ''?'')
                      @ join ''&'' (map (\<lambda>(k, v). k @ ''='' @ quote_plus v)
                                     (ps @ [(''t'', PStr tok)])))
           \<and> send_daily_sign_params mac secret
                 (AList.delete ''t'' (ps @ [(''t'', PStr tok)])) = Inr tok))"
proof (intro conjI impI)
  have "filter (\<lambda>(k, v). k \<noteq> ''t'') (AList.delete ''t'' ps) = filter (\<lambda>(k, v). k \<noteq> ''t'') ps"
    by (induction ps) auto
  then show "signing_sign_params mac ps secret
             = signing_sign_params mac (AList.delete ''t'' ps) secret"
    by (simp only: signing_sign_params_def)
next
  assume h: "''t'' \<notin> fst ` set ps \<and> secret \<noteq> []"
  then obtain tok where tok: "send_daily_sign_params mac secret ps = Inr tok"
    using send_daily_token [where secret = secret and mac = mac and ps = ps] by blast
  have "build_signed_url mac secret base ps
               = Inr (base @ (if CHR ''?'' \<in> set base then ''&'' else ''?'')
                      @ join ''&'' (map (\<lambda>(k, v). k @ ''='' @ quote_plus v)
                                     (ps @ [(''t'', PStr tok)])))"
    using h by (simp add: build_signed_url_def tok update_fresh)
  moreover have "send_daily_sign_params mac secret
                 (AList.delete ''t'' (ps @ [(''t'', PStr tok)])) = Inr tok"
    using h by (simp add: delete_fresh tok)
  ultimately show "\<exists>tok. send_daily_sign_params mac secret ps = Inr tok
           \<and> build_signed_url mac secret base ps
               = Inr (base @ (if CHR ''?'' \<in> set base then ''&'' else ''?'')
                      @ join ''&'' (map (\<lambda>(k, v). k @ ''='' @ quote_plus v)
                                     (ps @ [(''t'', PStr tok)])))
           \<and> send_daily_sign_params mac secret
                 (AList.delete ''t'' (ps @ [(''t'', PStr tok)])) = Inr tok"
    using tok by blast
qed

theorem reserved_key_excluded_witness:
  "\<forall>mac.
     signing_sign_params mac [(''u'', PStr ''a''), (''t'', PStr ''x'')] ''k''
       = signing_sign_params mac [(''u'', PStr ''a'')] ''k''
   \<and> send_daily_sign_params mac ''k'' [(''u'', PStr ''a'')] = Inr (b64url (mac ''k'' ''u=a''))
   \<and> build_signed_url mac ''k'' ''https://h/submit'' [(''u'', PStr ''a'')]
       = Inr (''https://h/submit?u=a&t='' @ quote_plus (PStr (b64url (mac ''k'' ''u=a''))))"
  (is "\<forall>mac. ?P mac")
proof (rule allI)
  fix mac :: "string \<Rightarrow> string \<Rightarrow> string"
  have d: "AList.delete ''t'' [(''u'', PStr ''a''), (''t'', PStr ''x'')] = [(''u'', PStr ''a'')]"
    by (simp add: AList.delete_eq)
  have h: "''t'' \<notin> fst ` set [(''u'', PStr ''a'')] \<and> ''k'' \<noteq> []"
    by simp
  have t: "send_daily_sign_params mac ''k'' [(''u'', PStr ''a'')] = Inr (b64url (mac ''k'' ''u=a''))"
    by (simp add: send_daily_sign_params_def item_def quote_defs)
  from reserved_key_excluded [where mac = mac and secret = "''k''"
      and ps = "[(''u'', PStr ''a''), (''t'', PStr ''x'')]"]
  have 1: "signing_sign_params mac [(''u'', PStr ''a''), (''t'', PStr ''x'')] ''k''
             = signing_sign_params mac [(''u'', PStr ''a'')] ''k''"
    by (simp only: d)
  from reserved_key_excluded [where mac = mac and secret = "''k''" and ps = "[(''u'', PStr ''a'')]"
      and base = "''https://h/submit''"] h t
  have 2: "build_signed_url mac ''k'' ''https://h/submit'' [(''u'', PStr ''a'')]
       = Inr (''https://h/submit?u=a&t='' @ quote_plus (PStr (b64url (mac ''k'' ''u=a''))))"
    by (simp add: quote_defs)
  from 1 t 2 show "?P mac" by simp
qed

text \<open>
  C5, as stated, fails on the sender's signer called by itself: it signs every entry
  it is given, so with \<open>t\<close> among the parameters the MAC is taken over \<open>t=x&u=a\<close> and
  without it over \<open>u=a\<close>, and the two tokens are not equal for every MAC.
\<close>

theorem send_daily_signs_reserved_key:
  "(\<forall>mac. send_daily_sign_params mac ''k'' [(''u'', PStr ''a''), (''t'', PStr ''x'')]
             = Inr (b64url (mac ''k'' ''t=x&u=a''))
          \<and> send_daily_sign_params mac ''k''
               (AList.delete ''t'' [(''u'', PStr ''a''), (''t'', PStr ''x'')])
             = Inr (b64url (mac ''k'' ''u=a'')))
   \<and> ''t=x&u=a'' \<noteq> ''u=a''
   \<and> \<not> (\<forall>mac. send_daily_sign_params mac ''k'' [(''u'', PStr ''a''), (''t'', PStr ''x'')]
               = send_daily_sign_params mac ''k''
                   (AList.delete ''t'' [(''u'', PStr ''a''), (''t'', PStr ''x'')]))"
proof -
  have e: "send_daily_sign_params mac ''k'' [(''u'', PStr ''a''), (''t'', PStr ''x'')]
             = Inr (b64url (mac ''k'' ''t=x&u=a''))
          \<and> send_daily_sign_params mac ''k''
               (AList.delete ''t'' [(''u'', PStr ''a''), (''t'', PStr ''x'')])
             = Inr (b64url (mac ''k'' ''u=a''))" for mac
    by (simp add: send_daily_sign_params_def item_def quote_defs AList.delete_eq)
  have n: "b64url ''t=x&u=a'' \<noteq> b64url ''u=a''"
    by code_simp
  have "\<not> (\<forall>mac. send_daily_sign_params mac ''k'' [(''u'', PStr ''a''), (''t'', PStr ''x'')]
               = send_daily_sign_params mac ''k''
                   (AList.delete ''t'' [(''u'', PStr ''a''), (''t'', PStr ''x'')]))"
  proof
    assume "\<forall>mac. send_daily_sign_params mac ''k'' [(''u'', PStr ''a''), (''t'', PStr ''x'')]
               = send_daily_sign_params mac ''k''
                   (AList.delete ''t'' [(''u'', PStr ''a''), (''t'', PStr ''x'')])"
    then have "send_daily_sign_params (\<lambda>key msg. msg) ''k''
                 [(''u'', PStr ''a''), (''t'', PStr ''x'')]
               = send_daily_sign_params (\<lambda>key msg. msg) ''k''
                   (AList.delete ''t'' [(''u'', PStr ''a''), (''t'', PStr ''x'')])"
      by (rule spec)
    then have "b64url ''t=x&u=a'' = b64url ''u=a''"
      using e [of "\<lambda>key msg. msg"] by simp
    with n show False by simp
  qed
  with e show ?thesis by simp
qed

subsection \<open>The empty secret\<close>

text \<open>
  The sender's signer raises on an empty secret and returns a token on any other.
\<close>

lemma send_daily_empty_secret: "send_daily_sign_params mac [] ps = Inl RuntimeError"
  by (simp add: send_daily_sign_params_def)

lemma send_daily_returns:
  assumes "secret \<noteq> []"
  shows "\<exists>token. send_daily_sign_params mac secret ps = Inr token"
proof -
  have "set (sort (map fst ps)) \<subseteq> fst ` set ps" by simp
  then show ?thesis
    using assms by (simp only: send_daily_sign_params_def Let_def collect_items if_False sum.case) blast
qed

text \<open>
  C6 (empty-secret failure).  The library signer has no check of the secret: with the
  empty secret it returns the token of the MAC under the empty key.
\<close>

theorem signing_accepts_empty_secret:
  "signing_sign_params mac [(''u'', PStr ''a'')] [] = Inr (b64url (mac [] ''u=a''))"
  by (simp add: signing_sign_params_def b64url_def quote_defs)

subsection \<open>The two signers agree\<close>

text \<open>
  C10 (equivalence of the two signers).  On a dictionary of parameters (distinct
  keys) without the key \<open>t\<close> and with a secret that is not empty, the library signer
  and the sender's signer return the same token, whatever the MAC.
\<close>

theorem signers_agree:
  assumes "distinct (map fst ps)" and "''t'' \<notin> fst ` set ps" and "secret \<noteq> []"
  shows "signing_sign_params mac ps secret = send_daily_sign_params mac secret ps"
proof -
  have "map (\<lambda>(k, v). k @ ''='' @ urllib_quote_plus v [])
          (sort (map (\<lambda>(k, v). (k, py_str v)) ps))
        = map (\<lambda>k. k @ ''='' @ quote_plus (the (map_of ps k))) (sort (map fst ps))"
    by (simp only: sort_items [OF assms(1)] map_map comp_def prod.case quote_plus_def)
  moreover have "set (sort (map fst ps)) \<subseteq> fst ` set ps"
    by simp
  ultimately show ?thesis
    using assms(3)
    by (simp only: signing_sign_params_def send_daily_sign_params_def Let_def
        filter_no_t [OF assms(2)] collect_items b64url_def if_False sum.case)
qed

theorem signers_agree_witness:
  "\<forall>mac. signing_sign_params mac
            [(''u'', PStr ''a b''), (''d'', PStr ''2024-03-10''), (''ex'', PInt 7)] ''k''
          = Inr (b64url (mac ''k'' ''d=2024-03-10&ex=7&u=a+b''))
        \<and> send_daily_sign_params mac ''k''
            [(''u'', PStr ''a b''), (''d'', PStr ''2024-03-10''), (''ex'', PInt 7)]
          = Inr (b64url (mac ''k'' ''d=2024-03-10&ex=7&u=a+b''))"
proof -
  let ?ps = "[(''u'', PStr ''a b''), (''d'', PStr ''2024-03-10''), (''ex'', PInt 7)]"
  have h1: "distinct (map fst ?ps)" by simp
  have h2: "''t'' \<notin> fst ` set ?ps" by simp
  have h3: "''k'' \<noteq> []" by simp
  have "signing_sign_params mac ?ps ''k'' = Inr (b64url (mac ''k'' ''d=2024-03-10&ex=7&u=a+b''))"
    for mac
    by (simp add: signing_sign_params_def b64url_def quote_defs digit_char_def
        str_of_nat.simps)
  with signers_agree [OF h1 h2 h3] show ?thesis
    by simp
qed

section \<open>Properties of the plan selector\<close>

text \<open>A call of the sender's transition that returns is logged by the store.\<close>

lemma send_daily_logs_save:
  assumes "send_daily_pick_today_index int_str u today tot st = (Inr i, st')"
  shows "saved st' = u # saved st"
  using assms
  by (auto simp add: send_daily_pick_today_index_def Let_def save_sched_def split: sum.splits if_splits)

text \<open>
  C7 (rest-day frame).  When \<open>config/schedule.json\<close> exists and its entry for today's
  weekday is null or missing, a string that \<open>strip\<close> leaves empty (white space of
  Unicode included) or \<open>rest\<close> in any case, the picker
  returns the rest payload tagged \<open>__rest__\<close>, which has no \<open>exercises\<close>, and the
  store it returns is the one it was given: no schedule file is written and no save
  is logged, so the rotation transition was not called.
\<close>

theorem rest_day_frame:
  assumes "schedule_json ev = Some sched" and "fromisoformat today_iso = Inr d"
    and "dict_get sched (weekday_name d) JNull = JNull
         \<or> (\<exists>s. dict_get sched (weekday_name d) JNull = JStr s
                  \<and> (strip s = [] \<or> lower (strip s) = ''rest''))"
  shows "pick_split_for_today ev int_str username today_iso st
           = (Inr ((''__rest__'', JBool True) # rest_payload), st)
       \<and> map_of ((''__rest__'', JBool True) # rest_payload) ''exercises'' = None"
proof -
  have "pick_scheduled_split_or_rest ev today_iso = Inr (Rest rest_payload)"
    using assms by (auto simp add: pick_scheduled_split_or_rest_def Let_def)
  then show ?thesis
    by (simp add: pick_split_for_today_def rest_payload_def)
qed

theorem rest_day_frame_witness:
  "\<forall>int_str.
     pick_split_for_today (env_of (Some [(''Monday'', JStr ''Push_Day.json''),
                                         (''Wednesday'', JStr [])]) [])
       int_str ''u'' ''2024-03-13''
       (store_of [(''u'', [(''current_index'', JInt 2), (''last_action'', JStr ''COMPLETED''),
                           (''last_action_date'', JStr ''2024-03-12'')])])
     = (Inr ((''__rest__'', JBool True) # rest_payload),
        store_of [(''u'', [(''current_index'', JInt 2), (''last_action'', JStr ''COMPLETED''),
                           (''last_action_date'', JStr ''2024-03-12'')])])
   \<and> pick_split_for_today (env_of (Some [(''Wednesday'', JStr '' ReST '')]) [])
       int_str ''u'' ''2024-03-13'' (store_of [])
     = (Inr ((''__rest__'', JBool True) # rest_payload), store_of [])
   \<and> pick_split_for_today
       (env_of (Some [(''Wednesday'', JStr [CHR 0xC2, CHR 0xA0, CHR 0x20, CHR 0xE3, CHR 0x80,
                                             CHR 0x80])]) [])
       int_str ''u'' ''2024-03-13'' (store_of [])
     = (Inr ((''__rest__'', JBool True) # rest_payload), store_of [])"
  (is "\<forall>int_str. ?P int_str")
proof (rule allI)
  fix int_str :: "string \<Rightarrow> error + int"
  let ?s1 = "[(''Monday'', JStr ''Push_Day.json''), (''Wednesday'', JStr [])]"
  let ?s2 = "[(''Wednesday'', JStr '' ReST '')]"
  let ?s3 = "[(''Wednesday'', JStr [CHR 0xC2, CHR 0xA0, CHR 0x20, CHR 0xE3, CHR 0x80, CHR 0x80])]"
  have d: "fromisoformat ''2024-03-13'' = Inr (Date 2024 3 13)" by (simp add: date_defs)
  have e1: "schedule_json (env_of (Some ?s1) []) = Some ?s1" by (simp add: env_of_def)
  have e2: "schedule_json (env_of (Some ?s2) []) = Some ?s2" by (simp add: env_of_def)
  have e3: "schedule_json (env_of (Some ?s3) []) = Some ?s3" by (simp add: env_of_def)
  have w: "weekday_name (Date 2024 3 13) = ''Wednesday''" by (simp add: date_defs)
  have b1: "strip [] = []" by (simp add: strip_def)
  have b2: "lower (strip '' ReST '') = ''rest''" by code_simp
  have b3: "strip [CHR 0xC2, CHR 0xA0, CHR 0x20, CHR 0xE3, CHR 0x80, CHR 0x80] = []"
    by code_simp
  have h1: "dict_get ?s1 (weekday_name (Date 2024 3 13)) JNull = JNull
         \<or> (\<exists>s. dict_get ?s1 (weekday_name (Date 2024 3 13)) JNull = JStr s
                  \<and> (strip s = [] \<or> lower (strip s) = ''rest''))"
    using b1 by (simp add: w dict_get_def)
  have h2: "dict_get ?s2 (weekday_name (Date 2024 3 13)) JNull = JNull
         \<or> (\<exists>s. dict_get ?s2 (weekday_name (Date 2024 3 13)) JNull = JStr s
                  \<and> (strip s = [] \<or> lower (strip s) = ''rest''))"
    using b2 by (simp add: w dict_get_def)
  have h3: "dict_get ?s3 (weekday_name (Date 2024 3 13)) JNull = JNull
         \<or> (\<exists>s. dict_get ?s3 (weekday_name (Date 2024 3 13)) JNull = JStr s
                  \<and> (strip s = [] \<or> lower (strip s) = ''rest''))"
    using b3 by (simp add: w dict_get_def)
  from rest_day_frame [where int_str = int_str, OF e1 d h1]
    rest_day_frame [where int_str = int_str, OF e2 d h2]
    rest_day_frame [where int_str = int_str, OF e3 d h3]
  show "?P int_str" by simp
qed

text \<open>
  C8 (a malformed override is fatal).  When \<open>config/schedule.json\<close> exists and its
  entry for today's weekday is neither null nor a string, the picker raises
  \<open>ValueError\<close>, and the store it leaves is the one it was given.
\<close>

theorem malformed_override_fatal:
  assumes "schedule_json ev = Some sched" and "fromisoformat today_iso = Inr d"
    and "dict_get sched (weekday_name d) JNull \<noteq> JNull"
    and "\<forall>s. dict_get sched (weekday_name d) JNull \<noteq> JStr s"
  shows "pick_split_for_today ev int_str username today_iso st = (Inl ValueError, st)"
proof -
  have "\<not> is_blank_str (dict_get sched (weekday_name d) JNull)"
       "\<not> is_rest_str (dict_get sched (weekday_name d) JNull)"
    using assms(4) by (cases "dict_get sched (weekday_name d) JNull"; simp)+
  then have "pick_scheduled_split_or_rest ev today_iso = Inl ValueError"
    using assms by (auto simp add: pick_scheduled_split_or_rest_def Let_def split: json.splits)
  then show ?thesis
    by (simp add: pick_split_for_today_def)
qed

theorem malformed_override_fatal_witness:
  "\<forall>int_str.
     pick_split_for_today
       (env_of (Some [(''Wednesday'', JStr ''rest''), (''Thursday'', JInt 3)]) [])
       int_str ''u'' ''2024-03-14''
       (store_of [(''u'', [(''current_index'', JInt 2), (''last_action'', JStr ''COMPLETED''),
                           (''last_action_date'', JStr ''2024-03-12'')])])
     = (Inl ValueError,
        store_of [(''u'', [(''current_index'', JInt 2), (''last_action'', JStr ''COMPLETED''),
                           (''last_action_date'', JStr ''2024-03-12'')])])"
  (is "\<forall>int_str. ?P int_str")
proof (rule allI)
  fix int_str :: "string \<Rightarrow> error + int"
  let ?s = "[(''Wednesday'', JStr ''rest''), (''Thursday'', JInt 3)]"
  have d: "fromisoformat ''2024-03-14'' = Inr (Date 2024 3 14)" by (simp add: date_defs)
  have e: "schedule_json (env_of (Some ?s) []) = Some ?s" by (simp add: env_of_def)
  have w: "weekday_name (Date 2024 3 14) = ''Thursday''" by (simp add: date_defs)
  have h1: "dict_get ?s (weekday_name (Date 2024 3 14)) JNull \<noteq> JNull"
    by (simp add: w dict_get_def)
  have h2: "\<forall>s. dict_get ?s (weekday_name (Date 2024 3 14)) JNull \<noteq> JStr s"
    by (simp add: w dict_get_def)
  from malformed_override_fatal [where int_str = int_str, OF e d h1 h2] show "?P int_str" .
qed

end
